theory Spec2Isabelle
  imports Complex_Main "HOL-Library.Sublist"
begin

section \<open>JavaScript values used by the page controllers\<close>

text \<open>
  The three controllers (\<^verbatim>\<open>dashboard.js\<close>, \<^verbatim>\<open>api_management.js\<close>,
  \<^verbatim>\<open>add_strategy.js\<close>) compute with JavaScript numbers, \<^verbatim>\<open>null\<close>,
  \<^verbatim>\<open>undefined\<close> and strings.

  A JavaScript number is modelled as \<open>jsnum\<close>: the three special values of IEEE
  arithmetic and the finite values, the latter as rationals. The special values follow
  the IEEE rules the language prescribes (\<^verbatim>\<open>x / 0\<close>, \<^verbatim>\<open>Infinity - Infinity\<close>,
  comparisons with \<^verbatim>\<open>NaN\<close>). Rounding of finite results to 64 bits, overflow of
  finite results and the sign of zero are outside this model: a finite result is the
  exact rational.

  Strings are lists of 8-bit characters.
\<close>

datatype jsnum = NaN | PInf | NInf | Fin rat

text \<open>A JSON field that holds a number, \<^verbatim>\<open>null\<close>, or is missing (\<^verbatim>\<open>undefined\<close>).\<close>

datatype jsval = Undefined | Null | Num jsnum

text \<open>The implicit conversion \<^verbatim>\<open>ToNumber\<close> applied by \<^verbatim>\<open>*\<close>, \<^verbatim>\<open>-\<close>, \<^verbatim>\<open>/\<close> and \<^verbatim>\<open>>\<close>.\<close>

fun ToNumber :: "jsval \<Rightarrow> jsnum" where
  "ToNumber Undefined = NaN"
| "ToNumber Null = Fin 0"
| "ToNumber (Num n) = n"

fun js_sub_num :: "jsnum \<Rightarrow> jsnum \<Rightarrow> jsnum" where
  "js_sub_num NaN _ = NaN"
| "js_sub_num _ NaN = NaN"
| "js_sub_num PInf PInf = NaN"
| "js_sub_num NInf NInf = NaN"
| "js_sub_num PInf _ = PInf"
| "js_sub_num NInf _ = NInf"
| "js_sub_num (Fin a) PInf = NInf"
| "js_sub_num (Fin a) NInf = PInf"
| "js_sub_num (Fin a) (Fin b) = Fin (a - b)"

text \<open>The infinity with the sign of a rational factor; \<^verbatim>\<open>Infinity * 0\<close> is \<^verbatim>\<open>NaN\<close>.\<close>

definition signed_inf :: "bool \<Rightarrow> rat \<Rightarrow> jsnum" where
  "signed_inf positive r =
     (if r = 0 then NaN else if (0 < r) = positive then PInf else NInf)"

fun js_mul_num :: "jsnum \<Rightarrow> jsnum \<Rightarrow> jsnum" where
  "js_mul_num NaN _ = NaN"
| "js_mul_num _ NaN = NaN"
| "js_mul_num PInf PInf = PInf"
| "js_mul_num PInf NInf = NInf"
| "js_mul_num NInf PInf = NInf"
| "js_mul_num NInf NInf = PInf"
| "js_mul_num PInf (Fin b) = signed_inf True b"
| "js_mul_num NInf (Fin b) = signed_inf False b"
| "js_mul_num (Fin a) PInf = signed_inf True a"
| "js_mul_num (Fin a) NInf = signed_inf False a"
| "js_mul_num (Fin a) (Fin b) = Fin (a * b)"

text \<open>
  Division. A zero divisor is the positive zero here: the only zero divisor the dashboard
  can meet past its guard is \<^verbatim>\<open>ToNumber(null)\<close>, which is \<^verbatim>\<open>+0\<close>.
\<close>

fun js_div_num :: "jsnum \<Rightarrow> jsnum \<Rightarrow> jsnum" where
  "js_div_num NaN _ = NaN"
| "js_div_num _ NaN = NaN"
| "js_div_num PInf PInf = NaN"
| "js_div_num PInf NInf = NaN"
| "js_div_num NInf PInf = NaN"
| "js_div_num NInf NInf = NaN"
| "js_div_num PInf (Fin b) = (if 0 \<le> b then PInf else NInf)"
| "js_div_num NInf (Fin b) = (if 0 \<le> b then NInf else PInf)"
| "js_div_num (Fin a) PInf = Fin 0"
| "js_div_num (Fin a) NInf = Fin 0"
| "js_div_num (Fin a) (Fin b) =
     (if b = 0 then (if a = 0 then NaN else if 0 < a then PInf else NInf)
      else Fin (a / b))"

fun js_less_num :: "jsnum \<Rightarrow> jsnum \<Rightarrow> bool" where
  "js_less_num NaN _ = False"
| "js_less_num _ NaN = False"
| "js_less_num PInf _ = False"
| "js_less_num NInf NInf = False"
| "js_less_num NInf _ = True"
| "js_less_num (Fin a) PInf = True"
| "js_less_num (Fin a) NInf = False"
| "js_less_num (Fin a) (Fin b) = (a < b)"

text \<open>The operators on values, each converting its operands first.\<close>

definition js_sub :: "jsval \<Rightarrow> jsval \<Rightarrow> jsnum" where
  "js_sub a b = js_sub_num (ToNumber a) (ToNumber b)"

definition js_mul :: "jsval \<Rightarrow> jsval \<Rightarrow> jsnum" where
  "js_mul a b = js_mul_num (ToNumber a) (ToNumber b)"

definition js_div :: "jsval \<Rightarrow> jsval \<Rightarrow> jsnum" where
  "js_div a b = js_div_num (ToNumber a) (ToNumber b)"

text \<open>\<^verbatim>\<open>a > b\<close> and \<^verbatim>\<open>a >= b\<close>; both are false when an operand converts to \<^verbatim>\<open>NaN\<close>.\<close>

definition js_gt :: "jsval \<Rightarrow> jsval \<Rightarrow> bool" where
  "js_gt a b = js_less_num (ToNumber b) (ToNumber a)"

definition js_ge :: "jsval \<Rightarrow> jsval \<Rightarrow> bool" where
  "js_ge a b =
     (ToNumber a \<noteq> NaN \<and> ToNumber b \<noteq> NaN \<and> \<not> js_less_num (ToNumber a) (ToNumber b))"

text \<open>\<^verbatim>\<open>v != null\<close> (loose: false for \<^verbatim>\<open>undefined\<close> too) and \<^verbatim>\<open>v !== 0\<close> (strict).\<close>

definition not_nullish :: "jsval \<Rightarrow> bool" where
  "not_nullish v = (v \<noteq> Null \<and> v \<noteq> Undefined)"

definition strict_neq_zero :: "jsval \<Rightarrow> bool" where
  "strict_neq_zero v = (v \<noteq> Num (Fin 0))"

section \<open>Rendered markup\<close>

text \<open>
  Markup is a sequence of characters and of formatted numbers: \<open>Fixed d x\<close> stands for
  the text \<^verbatim>\<open>x.toFixed(d)\<close>. A template literal is the concatenation of its pieces.
\<close>

datatype frag = Ch char | Fixed nat jsnum

type_synonym html = "frag list"

definition lit :: "string \<Rightarrow> html" where
  "lit s = map Ch s"

text \<open>
  \<^verbatim>\<open>v != null ? v.toFixed(d) : alt\<close>. Past the test \<open>v\<close> is a number, so that
  \<^verbatim>\<open>toFixed\<close> exists.
\<close>

fun toFixed_or :: "nat \<Rightarrow> jsval \<Rightarrow> string \<Rightarrow> html" where
  "toFixed_or d (Num n) alt = [Fixed d n]"
| "toFixed_or d Null alt = lit alt"
| "toFixed_or d Undefined alt = lit alt"

text \<open>The numbers a piece of markup formats, in order.\<close>

fun fixed_values :: "html \<Rightarrow> jsnum list" where
  "fixed_values [] = []"
| "fixed_values (Ch c # fs) = fixed_values fs"
| "fixed_values (Fixed d x # fs) = x # fixed_values fs"

text \<open>\<^verbatim>\<open>String.prototype.substring\<close>: both indices are clamped to the string, then ordered.\<close>

definition clamp_index :: "int \<Rightarrow> nat \<Rightarrow> nat" where
  "clamp_index i n = (if i < 0 then 0 else min (nat i) n)"

definition substring :: "string \<Rightarrow> int \<Rightarrow> int \<Rightarrow> string" where
  "substring s start end =
     (let a = clamp_index start (length s); b = clamp_index end (length s)
      in take (max a b - min a b) (drop (min a b) s))"

text \<open>With one argument the end is the length of the string.\<close>

definition substring_from :: "string \<Rightarrow> int \<Rightarrow> string" where
  "substring_from s start = substring s start (int (length s))"

section \<open>Dashboard: \<^verbatim>\<open>dashboard.js\<close>\<close>

record strategy_config =
  config_id :: string
  strategy_name :: string
  trading_pair :: string
  api_id :: string

record active_state =
  is_running :: bool
  current_position_quantity :: jsval
  average_entry_price :: jsval
  realized_pnl_usdt :: jsval
  total_invested_usdt :: jsval

text \<open>An item of \<^verbatim>\<open>strategies_data\<close>; \<open>active_state\<close> is \<open>None\<close> when it is null or missing.\<close>

record dashboard_item =
  strategy_config :: strategy_config
  active_state :: "active_state option"
  current_market_price :: jsval

text \<open>The three local constants of the position branch of \<^verbatim>\<open>renderStrategyCards\<close>.\<close>

definition positionValue :: "active_state \<Rightarrow> jsval \<Rightarrow> jsnum" where
  "positionValue state currentPrice = js_mul (current_position_quantity state) currentPrice"

definition unrealizedPnl :: "active_state \<Rightarrow> jsval \<Rightarrow> jsnum" where
  "unrealizedPnl state currentPrice =
     js_mul (Num (js_sub currentPrice (average_entry_price state)))
            (current_position_quantity state)"

definition pnlPercentage :: "active_state \<Rightarrow> jsval \<Rightarrow> jsnum" where
  "pnlPercentage state currentPrice =
     (if strict_neq_zero (total_invested_usdt state)
      then js_mul (Num (js_div (Num (unrealizedPnl state currentPrice))
                               (total_invested_usdt state)))
                  (Num (Fin 100))
      else Fin 0)"

text \<open>The test that opens the position branch.\<close>

definition has_position :: "active_state option \<Rightarrow> jsval \<Rightarrow> bool" where
  "has_position state currentPrice =
     (case state of
        None \<Rightarrow> False
      | Some s \<Rightarrow> js_gt (current_position_quantity s) (Num (Fin 0)) \<and> not_nullish currentPrice)"

text \<open>The variables \<^verbatim>\<open>positionInfo\<close> and \<^verbatim>\<open>pnlInfo\<close> once the branches have run.\<close>

definition positionInfo :: "active_state option \<Rightarrow> jsval \<Rightarrow> html" where
  \<open>positionInfo state currentPrice =
     (case state of
        None \<Rightarrow> lit ''<p>Position: Not active or no position</p>''
      | Some s \<Rightarrow>
          if has_position state currentPrice then
            lit ''\<newline>                    <p>Avg. Entry: ''
            @ toFixed_or 4 (average_entry_price s) ''N/A''
            @ lit ''</p>\<newline>                    <p>Quantity: ''
            @ toFixed_or 4 (current_position_quantity s) ''N/A''
            @ lit ''</p>\<newline>                    <p>Value: ''
            @ [Fixed 2 (positionValue s currentPrice)]
            @ lit '' USDT</p>\<newline>                ''
          else lit ''<p>Position: No current position</p>'')\<close>

definition pnlInfo :: "active_state option \<Rightarrow> jsval \<Rightarrow> html" where
  \<open>pnlInfo state currentPrice =
     (case state of
        None \<Rightarrow> lit ''<p>P&L: -</p>''
      | Some s \<Rightarrow>
          if has_position state currentPrice then
            lit ''\<newline>                    <p>Realized P&L: ''
            @ toFixed_or 2 (realized_pnl_usdt s) ''0.00''
            @ lit '' USDT</p>\<newline>                    <p>Unrealized P&L: <span class="''
            @ lit (if js_ge (Num (unrealizedPnl s currentPrice)) (Num (Fin 0))
                   then ''profit'' else ''loss'')
            @ lit ''">''
            @ [Fixed 2 (unrealizedPnl s currentPrice)]
            @ lit '' USDT (''
            @ [Fixed 2 (pnlPercentage s currentPrice)]
            @ lit ''%)</span></p>\<newline>                ''
          else
            lit ''<p>Realized P&L: ''
            @ toFixed_or 2 (realized_pnl_usdt s) ''0.00''
            @ lit '' USDT</p><p>Unrealized P&L: -</p>'')\<close>

definition statusText :: "active_state option \<Rightarrow> string" where
  "statusText state =
     (case state of
        None \<Rightarrow> ''Not Started''
      | Some s \<Rightarrow> if is_running s then ''Running'' else ''Paused/Stopped'')"

definition runPauseButtonText :: "active_state option \<Rightarrow> string" where
  "runPauseButtonText state =
     (case state of None \<Rightarrow> ''Run'' | Some s \<Rightarrow> if is_running s then ''Pause'' else ''Run'')"

text \<open>The \<^verbatim>\<open>div\<close> that the loop body builds for one item.\<close>

record card =
  className :: string
  strategyId :: string
  innerHTML :: html

definition render_card :: "dashboard_item \<Rightarrow> card" where
  \<open>render_card item =
     (let config = strategy_config item;
          state = active_state item;
          currentPrice = current_market_price item
      in \<lparr> className = ''strategy-card'',
           strategyId = config_id config,
           innerHTML =
             lit ''\<newline>                <h3>'' @ lit (strategy_name config)
             @ lit ''</h3>\<newline>                <p>Pair: '' @ lit (trading_pair config)
             @ lit '' | API ID: '' @ lit (substring (api_id config) 0 8)
             @ lit ''...</p> \<newline>                <p>Status: <strong id="status-''
             @ lit (config_id config) @ lit ''">'' @ lit (statusText state)
             @ lit ''</strong> | Current Price: '' @ toFixed_or 4 currentPrice ''N/A''
             @ lit ''</p>\<newline>                '' @ positionInfo state currentPrice
             @ lit ''\<newline>                '' @ pnlInfo state currentPrice
             @ lit ''\<newline>                <div class="controls">\<newline>                    <button class="runPauseBtn" data-id="''
             @ lit (config_id config) @ lit ''">'' @ lit (runPauseButtonText state)
             @ lit ''</button>\<newline>                    <button class="modifyBtn" data-id="''
             @ lit (config_id config)
             @ lit ''">Modify</button>\<newline>                    <button class="deleteStrategyBtn" data-id="''
             @ lit (config_id config)
             @ lit ''">Delete Strategy</button>\<newline>                </div>\<newline>            '' \<rparr>)\<close>

subsection \<open>The page and one refresh\<close>

text \<open>
  What \<^verbatim>\<open>fetch\<close> and \<^verbatim>\<open>response.json()\<close> deliver: a transport failure, or a
  status with the parsed body (\<open>None\<close> when the body is not JSON and parsing rejects).
\<close>

datatype 'a fetch_result = NetworkError | Response nat "'a option"

definition response_ok :: "nat \<Rightarrow> bool" where
  "response_ok status = (200 \<le> status \<and> status \<le> 299)"

text \<open>What the \<^verbatim>\<open>try\<close> blocks can throw before they touch the page.\<close>

datatype js_error = FetchFailed | HttpError nat | JsonSyntaxError

text \<open>
  The children of \<^verbatim>\<open>#strategy-cards-container\<close>: the loading indicator itself (when the
  page puts it there), markup assigned through \<^verbatim>\<open>innerHTML\<close>, or an appended card.
\<close>

datatype node = LoadingEl | Markup string | CardEl card

text \<open>
  The two handles the controller keeps and its diagnostics. \<open>loadingMessage\<close> is
  \<open>None\<close> when \<^verbatim>\<open>getElementById('loading-strategies')\<close> found nothing, else the
  text of that element; the element keeps its text whether or not it is still attached.
  The container is taken to exist, as \<^verbatim>\<open>renderStrategyCards\<close> requires.
\<close>

record dashboard_page =
  strategyCardsContainer :: "node list"
  loadingMessage :: "string option"
  dash_console :: "(string \<times> js_error) list"

text \<open>The body of \<^verbatim>\<open>GET /ui/dashboard-data\<close>; the list is \<open>None\<close> when null or missing.\<close>

record dashboard_data =
  strategies_data :: "dashboard_item list option"

definition appendCard :: "dashboard_item \<Rightarrow> dashboard_page \<Rightarrow> dashboard_page" where
  "appendCard item page =
     page\<lparr>strategyCardsContainer := strategyCardsContainer page @ [CardEl (render_card item)]\<rparr>"

text \<open>
  \<^verbatim>\<open>renderStrategyCards\<close>. Attaching the button handlers at its end changes nothing
  that is displayed.
\<close>

definition renderStrategyCards ::
  "dashboard_item list option \<Rightarrow> dashboard_page \<Rightarrow> dashboard_page" where
  \<open>renderStrategyCards strategiesData page =
     (let cleared = page\<lparr>strategyCardsContainer := []\<rparr>;
          none = cleared\<lparr>strategyCardsContainer :=
            [Markup ''<p>No strategies configured yet. <a href="/add-strategy-page">Add a strategy!</a></p>'']\<rparr>
      in case strategiesData of
           None \<Rightarrow> none
         | Some items \<Rightarrow> if length items = 0 then none else fold appendCard items cleared)\<close>

text \<open>The \<^verbatim>\<open>try\<close> block of \<^verbatim>\<open>fetchDashboardData\<close>: it throws before any change.\<close>

definition fetchDashboardData_try ::
  "dashboard_page \<Rightarrow> dashboard_data fetch_result \<Rightarrow> js_error + dashboard_page" where
  "fetchDashboardData_try page r =
     (case r of
        NetworkError \<Rightarrow> Inl FetchFailed
      | Response status body \<Rightarrow>
          if \<not> response_ok status then Inl (HttpError status)
          else (case body of
                  None \<Rightarrow> Inl JsonSyntaxError
                | Some data \<Rightarrow> Inr (renderStrategyCards (strategies_data data) page)))"

text \<open>\<^verbatim>\<open>fetchDashboardData\<close> with its \<^verbatim>\<open>catch\<close> block.\<close>

definition fetchDashboardData ::
  "dashboard_page \<Rightarrow> dashboard_data fetch_result \<Rightarrow> dashboard_page" where
  "fetchDashboardData page r =
     (case fetchDashboardData_try page r of
        Inr page' \<Rightarrow> page'
      | Inl error \<Rightarrow>
          (let logged = page\<lparr>dash_console :=
                 dash_console page @ [(''Error fetching dashboard data:'', error)]\<rparr>
           in case loadingMessage page of
                Some t \<Rightarrow> logged\<lparr>loadingMessage := Some ''Error loading strategies.''\<rparr>
              | None \<Rightarrow> logged\<lparr>strategyCardsContainer :=
                  [Markup ''<p>Could not load strategy data. Please try again later.</p>'']\<rparr>))"

text \<open>A refresh fails by a transport error or a status outside 200..299.\<close>

definition fetch_failed :: "'a fetch_result \<Rightarrow> bool" where
  "fetch_failed r =
     (case r of NetworkError \<Rightarrow> True | Response status body \<Rightarrow> \<not> response_ok status)"

section \<open>API-key manager: \<^verbatim>\<open>api_management.js\<close>\<close>

text \<open>
  A credential record. Read endpoints leave \<open>secret_key\<close> out; the field is kept
  here so that what a row shows can be compared between records that differ in it.
\<close>

record api_key_record =
  apiKey_id :: string
  alias_name :: string
  api_key :: string
  secret_key :: "string option"
  mode :: string
  connection_status :: string

definition keyDisplay :: "api_key_record \<Rightarrow> string" where
  "keyDisplay apiKey =
     substring (api_key apiKey) 0 4 @ ''...''
     @ substring_from (api_key apiKey) (int (length (api_key apiKey)) - 4)"

definition row_innerHTML :: "api_key_record \<Rightarrow> string" where
  \<open>row_innerHTML apiKey =
     ''\<newline>                    <td>'' @ alias_name apiKey
     @ ''</td>\<newline>                    <td>'' @ keyDisplay apiKey
     @ ''</td>\<newline>                    <td>'' @ mode apiKey
     @ ''</td>\<newline>                    <td style="color: ''
     @ (if connection_status apiKey = ''connected'' then ''green'' else ''red'')
     @ '';">'' @ connection_status apiKey
     @ ''</td>\<newline>                    <td>\<newline>                        <button class="editBtn" data-id="''
     @ apiKey_id apiKey
     @ ''">Edit</button>\<newline>                        <button class="deleteBtn" data-id="''
     @ apiKey_id apiKey
     @ ''">Delete</button>\<newline>                    </td>\<newline>                ''\<close>

text \<open>The children of the table body: an inserted row, or markup assigned to it.\<close>

datatype tbody_node = RowEl string | RowMarkup string

text \<open>
  The state of the page: the table body, the single add/edit form (its title, the
  name and value of each control, the two attributes of the secret control, the
  \<^verbatim>\<open>display\<close> style of its container), the edit id and the diagnostics.
\<close>

record api_page =
  apiKeysTableBody :: "tbody_node list"
  formTitle :: string
  form_fields :: "(string \<times> string) list"
  secret_required :: bool
  secret_placeholder :: string
  form_display :: string
  currentEditApiId :: "string option"
  api_console :: "(string \<times> js_error) list"

definition insertRow :: "api_key_record \<Rightarrow> api_page \<Rightarrow> api_page" where
  "insertRow apiKey page =
     page\<lparr>apiKeysTableBody := apiKeysTableBody page @ [RowEl (row_innerHTML apiKey)]\<rparr>"

text \<open>
  The \<^verbatim>\<open>try\<close> block of \<^verbatim>\<open>fetchApiKeys\<close>. Its throws come before the table is
  touched; on records of this type the loop does not throw. Attaching the button
  handlers at its end changes nothing that is displayed.
\<close>

definition fetchApiKeys_try ::
  "api_page \<Rightarrow> api_key_record list fetch_result \<Rightarrow> js_error + api_page" where
  "fetchApiKeys_try page r =
     (case r of
        NetworkError \<Rightarrow> Inl FetchFailed
      | Response status body \<Rightarrow>
          if \<not> response_ok status then Inl (HttpError status)
          else (case body of
                  None \<Rightarrow> Inl JsonSyntaxError
                | Some apiKeys \<Rightarrow> Inr (fold insertRow apiKeys (page\<lparr>apiKeysTableBody := []\<rparr>))))"

text \<open>\<^verbatim>\<open>fetchApiKeys\<close> with its \<^verbatim>\<open>catch\<close> block.\<close>

definition fetchApiKeys :: "api_page \<Rightarrow> api_key_record list fetch_result \<Rightarrow> api_page" where
  \<open>fetchApiKeys page r =
     (case fetchApiKeys_try page r of
        Inr page' \<Rightarrow> page'
      | Inl error \<Rightarrow>
          page\<lparr>api_console := api_console page @ [(''Error fetching API keys:'', error)],
               apiKeysTableBody :=
                 [RowMarkup ''<tr><td colspan="5">Error loading API keys.</td></tr>'']\<rparr>)\<close>

subsection \<open>Submitting the form\<close>

text \<open>A JSON body: the object that \<^verbatim>\<open>JSON.stringify\<close> writes, as a map from its keys.\<close>

datatype json = JNull | JNumber rat | JString string | JBool bool

record http_request =
  request_url :: string
  request_method :: string
  request_body :: "string \<rightharpoonup> json"

text \<open>A submit handler either stops at an \<^verbatim>\<open>alert\<close> or issues its request.\<close>

datatype submit_outcome = Alert string | Request http_request

text \<open>
  What an outcome sends under a key: \<open>None\<close> when no request is sent, \<open>Some None\<close>
  when the body of the request has no such key, else the value under the key.
\<close>

definition sent_value :: "submit_outcome \<Rightarrow> string \<Rightarrow> json option option" where
  "sent_value outcome key =
     (case outcome of Alert message \<Rightarrow> None | Request req \<Rightarrow> Some (request_body req key))"

text \<open>\<^verbatim>\<open>Object.fromEntries\<close>: a later entry of the same name overwrites.\<close>

definition fromEntries :: "(string \<times> string) list \<Rightarrow> (string \<rightharpoonup> string)" where
  "fromEntries entries = fold (\<lambda>(k, v) obj. obj(k \<mapsto> v)) entries Map.empty"

text \<open>\<^verbatim>\<open>!x\<close> for a string property that may be missing, and for the edit id.\<close>

definition falsy_string :: "string option \<Rightarrow> bool" where
  "falsy_string x = (case x of None \<Rightarrow> True | Some s \<Rightarrow> s = [])"

definition stringify_strings :: "(string \<rightharpoonup> string) \<Rightarrow> (string \<rightharpoonup> json)" where
  "stringify_strings data = (\<lambda>k. map_option JString (data k))"

text \<open>The submit handler of \<^verbatim>\<open>apiKeyForm\<close> up to the request it sends.\<close>

definition apiKeyForm_submit :: "api_page \<Rightarrow> submit_outcome" where
  "apiKeyForm_submit page =
     (let data = fromEntries (form_fields page) in
      case (if falsy_string (currentEditApiId page) then None else currentEditApiId page) of
        Some editId \<Rightarrow>
          (let data1 = (if falsy_string (data ''secret_key'')
                        then data(''secret_key'' := None) else data);
               data2 = data1(''apiId'' := None)
           in Request \<lparr> request_url = ''/apis/'' @ editId,
                        request_method = ''PUT'',
                        request_body = stringify_strings data2 \<rparr>)
      | None \<Rightarrow>
          if falsy_string (data ''secret_key'') then
            Alert ''Secret Key is required for new API Key.''
          else
            Request \<lparr> request_url = ''/apis/'', request_method = ''POST'',
                      request_body = stringify_strings (data(''apiId'' := None)) \<rparr>)"

section \<open>Strategy creation form: \<^verbatim>\<open>add_strategy.js\<close>\<close>

subsection \<open>\<^verbatim>\<open>parseFloat\<close>\<close>

text \<open>
  \<^verbatim>\<open>parseFloat\<close> skips leading white space and reads the longest prefix that is a
  decimal literal: an optional sign, then \<^verbatim>\<open>Infinity\<close> or digits with an optional
  fraction and an optional exponent; at least one digit is needed before the exponent.
  Without such a prefix the result is \<^verbatim>\<open>NaN\<close>. The value of the literal is the
  exact rational; white space is the part of the language's white space that fits 8 bits.
\<close>

definition is_white_space :: "char \<Rightarrow> bool" where
  "is_white_space c =
     (c \<in> set [CHR 0x09, CHR 0x0A, CHR 0x0B, CHR 0x0C, CHR 0x0D, CHR 0x20, CHR 0xA0])"

definition is_digit :: "char \<Rightarrow> bool" where
  "is_digit c = (c \<in> set ''0123456789'')"

definition digits_value :: "string \<Rightarrow> nat" where
  "digits_value ds = foldl (\<lambda>acc c. 10 * acc + (of_char c - 48)) 0 ds"

text \<open>The exponent that follows the mantissa, 0 when there is none.\<close>

definition exponent_part :: "string \<Rightarrow> int" where
  "exponent_part r =
     (case r of
        [] \<Rightarrow> 0
      | c # r1 \<Rightarrow>
          if c = CHR ''e'' \<or> c = CHR ''E'' then
            (let negative = (case r1 of [] \<Rightarrow> False | s # _ \<Rightarrow> s = CHR ''-'');
                 signed = (case r1 of [] \<Rightarrow> False | s # _ \<Rightarrow> s = CHR ''-'' \<or> s = CHR ''+'');
                 ds = takeWhile is_digit (if signed then tl r1 else r1)
             in if ds = [] then 0
                else if negative then - int (digits_value ds) else int (digits_value ds))
          else 0)"

definition parseFloat :: "string \<Rightarrow> jsnum" where
  "parseFloat s =
     (let t = dropWhile is_white_space s;
          negative = (case t of [] \<Rightarrow> False | c # _ \<Rightarrow> c = CHR ''-'');
          signed = (case t of [] \<Rightarrow> False | c # _ \<Rightarrow> c = CHR ''-'' \<or> c = CHR ''+'');
          u = (if signed then tl t else t)
      in if prefix ''Infinity'' u then (if negative then NInf else PInf)
         else
           (let ip = takeWhile is_digit u;
                r1 = dropWhile is_digit u;
                dotted = (case r1 of [] \<Rightarrow> False | c # _ \<Rightarrow> c = CHR ''.'');
                fp = (if dotted then takeWhile is_digit (tl r1) else []);
                r2 = (if dotted then dropWhile is_digit (tl r1) else r1)
            in if ip = [] \<and> fp = [] then NaN
               else
                 (let e = exponent_part r2;
                      m = (of_nat (digits_value (ip @ fp)) :: rat) / 10 ^ length fp;
                      v = (if 0 \<le> e then m * 10 ^ nat e else m / 10 ^ nat (- e))
                  in Fin (if negative then - v else v))))"

subsection \<open>The submit handler\<close>

text \<open>What the handler stores in \<^verbatim>\<open>data\<close>: a string, a number or a boolean.\<close>

datatype jsdata = DStr string | DNum jsnum | DBool bool

text \<open>\<^verbatim>\<open>key.includes(marker)\<close> for the five numeric markers.\<close>

definition includes_str :: "string \<Rightarrow> string \<Rightarrow> bool" where
  "includes_str s searchString = sublist searchString s"

definition numeric_key :: "string \<Rightarrow> bool" where
  "numeric_key key =
     (includes_str key ''percentage'' \<or> includes_str key ''amount'' \<or> includes_str key ''multiplier''
      \<or> includes_str key ''count'' \<or> includes_str key ''seconds'')"

definition checkbox_key :: "string \<Rightarrow> bool" where
  "checkbox_key key =
     (key = ''cyclic_execution'' \<or> key = ''cover_orders_participate_in_profit_taking''
      \<or> key = ''enable_order_timeout'')"

text \<open>The callback of \<^verbatim>\<open>formData.forEach\<close>.\<close>

definition collect_field ::
  "string \<times> string \<Rightarrow> (string \<rightharpoonup> jsdata) \<Rightarrow> (string \<rightharpoonup> jsdata)" where
  "collect_field entry data =
     (case entry of (key, value) \<Rightarrow>
        if checkbox_key key then data
        else if numeric_key key then data(key \<mapsto> DNum (parseFloat value))
        else data(key \<mapsto> DStr value))"

text \<open>
  What the handler reads from the page: the entries of the form, the \<^verbatim>\<open>checked\<close>
  state of the three checkboxes and the \<^verbatim>\<open>value\<close> of the control with id
  \<^verbatim>\<open>order_timeout_seconds\<close>.
\<close>

record strategy_form =
  form_entries :: "(string \<times> string) list"
  cyclic_execution :: bool
  cover_orders_participate_in_profit_taking :: bool
  enable_order_timeout :: bool
  order_timeout_seconds :: string

text \<open>\<^verbatim>\<open>!x\<close> for a property of \<^verbatim>\<open>data\<close>.\<close>

definition falsy :: "jsdata option \<Rightarrow> bool" where
  "falsy x =
     (case x of
        None \<Rightarrow> True
      | Some (DStr s) \<Rightarrow> s = []
      | Some (DNum n) \<Rightarrow> n = NaN \<or> n = Fin 0
      | Some (DBool b) \<Rightarrow> \<not> b)"

text \<open>\<^verbatim>\<open>JSON.stringify\<close> of one property: a number that is not finite is written \<^verbatim>\<open>null\<close>.\<close>

fun stringify_value :: "jsdata \<Rightarrow> json" where
  "stringify_value (DStr s) = JString s"
| "stringify_value (DNum (Fin r)) = JNumber r"
| "stringify_value (DNum _) = JNull"
| "stringify_value (DBool b) = JBool b"

definition stringify :: "(string \<rightharpoonup> jsdata) \<Rightarrow> (string \<rightharpoonup> json)" where
  "stringify data = (\<lambda>k. map_option stringify_value (data k))"

text \<open>The object \<^verbatim>\<open>data\<close> when the handler reaches its check of \<^verbatim>\<open>api_id\<close>.\<close>

definition strategy_data :: "strategy_form \<Rightarrow> (string \<rightharpoonup> jsdata)" where
  "strategy_data form =
     (let data0 = fold collect_field (form_entries form) Map.empty;
          data1 = data0(''cyclic_execution'' \<mapsto> DBool (cyclic_execution form));
          data2 = data1(''cover_orders_participate_in_profit_taking'' \<mapsto>
                          DBool (cover_orders_participate_in_profit_taking form));
          data3 = data2(''enable_order_timeout'' \<mapsto> DBool (enable_order_timeout form))
      in if falsy (data3 ''enable_order_timeout'')
         then data3(''order_timeout_seconds'' := None)
         else data3(''order_timeout_seconds'' \<mapsto> DNum (parseFloat (order_timeout_seconds form))))"

text \<open>The submit handler of \<^verbatim>\<open>addStrategyForm\<close> up to the request it sends.\<close>

definition addStrategyForm_submit :: "strategy_form \<Rightarrow> submit_outcome" where
  "addStrategyForm_submit form =
     (let data = strategy_data form in
      if falsy (data ''api_id'') then Alert ''Please select an API Key.''
      else Request \<lparr> request_url = ''/strategies/'', request_method = ''POST'',
                     request_body = stringify data \<rparr>)"

section \<open>Facts about markup and the card\<close>

lemma fixed_values_append: "fixed_values (xs @ ys) = fixed_values xs @ fixed_values ys"
  by (induction xs rule: fixed_values.induct) simp_all

lemma fixed_values_lit: "fixed_values (lit s) = []"
  by (induction s) (simp_all add: lit_def)

lemma js_sub_num_zero: "js_sub_num x (Fin 0) = x"
  by (cases x) simp_all

lemma part_of: "ys = ps @ xs @ ss \<Longrightarrow> sublist xs ys"
  by (auto simp: sublist_def)

lemma part_of_part: "sublist xs ys \<Longrightarrow> sublist ys zs \<Longrightarrow> sublist xs zs"
proof -
  assume "sublist xs ys" and "sublist ys zs"
  then obtain p1 s1 p2 s2 where "ys = p1 @ xs @ s1" and "zs = p2 @ ys @ s2"
    by (auto simp: sublist_def)
  then have "zs = (p2 @ p1) @ xs @ (s1 @ s2)" by simp
  then show ?thesis by (rule part_of)
qed

lemma has_position_Some:
  "has_position (Some s) p = (js_gt (current_position_quantity s) (Num (Fin 0)) \<and> not_nullish p)"
  by (simp add: has_position_def)

lemma part_skip: "sublist xs ys \<Longrightarrow> sublist xs (a @ ys)"
  by (auto simp: sublist_def) (metis append.assoc)

lemma positionInfo_in_card:
  "sublist (positionInfo (active_state item) (current_market_price item))
           (innerHTML (render_card item))"
  unfolding render_card_def Let_def card.simps
  by (fast intro: part_skip sublist_append_rightI)

lemma pnlInfo_in_card:
  "sublist (pnlInfo (active_state item) (current_market_price item))
           (innerHTML (render_card item))"
  unfolding render_card_def Let_def card.simps
  by (fast intro: part_skip sublist_append_rightI)

lemma value_in_positionInfo:
  assumes "has_position (Some s) p"
  shows "sublist (lit ''<p>Value: '' @ [Fixed 2 (positionValue s p)] @ lit '' USDT</p>'')
                 (positionInfo (Some s) p)"
  by (rule part_of [where
        ps = "lit ''\<newline>                    <p>Avg. Entry: ''
              @ toFixed_or 4 (average_entry_price s) ''N/A''
              @ lit ''</p>\<newline>                    <p>Quantity: ''
              @ toFixed_or 4 (current_position_quantity s) ''N/A''
              @ lit ''</p>\<newline>                    ''"
        and ss = "lit ''\<newline>                ''"])
     (simp add: positionInfo_def assms lit_def)

lemma avg_entry_in_positionInfo:
  assumes "has_position (Some s) p"
  shows "sublist (lit ''<p>Avg. Entry: '' @ toFixed_or 4 (average_entry_price s) ''N/A'' @ lit ''</p>'')
                 (positionInfo (Some s) p)"
  by (rule part_of [where
        ps = "lit ''\<newline>                    ''"
        and ss = "lit ''\<newline>                    <p>Quantity: ''
              @ toFixed_or 4 (current_position_quantity s) ''N/A''
              @ lit ''</p>\<newline>                    <p>Value: ''
              @ [Fixed 2 (positionValue s p)]
              @ lit '' USDT</p>\<newline>                ''"])
     (simp add: positionInfo_def assms lit_def)

lemma fixed_values_positionInfo:
  "(fixed_values (positionInfo st p) \<noteq> []) = has_position st p"
  by (cases st)
     (simp_all add: positionInfo_def has_position_def fixed_values_append fixed_values_lit)


lemma unrealized_label_in_pnlInfo:
  assumes "has_position (Some s) p"
  shows \<open>sublist (lit ''<p>Unrealized P&L: <span class="''
                  @ lit (if js_ge (Num (unrealizedPnl s p)) (Num (Fin 0)) then ''profit'' else ''loss'')
                  @ lit ''">'' @ [Fixed 2 (unrealizedPnl s p)] @ lit '' USDT ('')
                 (pnlInfo (Some s) p)\<close>
  by (rule part_of [where
        ps = "lit ''\<newline>                    <p>Realized P&L: ''
              @ toFixed_or 2 (realized_pnl_usdt s) ''0.00''
              @ lit '' USDT</p>\<newline>                    ''"
        and ss = "[Fixed 2 (pnlPercentage s p)] @ lit ''%)</span></p>\<newline>                ''"])
     (simp add: pnlInfo_def assms lit_def)

lemma percentage_in_pnlInfo:
  assumes "has_position (Some s) p"
  shows \<open>sublist (lit '' USDT ('' @ [Fixed 2 (pnlPercentage s p)] @ lit ''%)</span></p>'')
                 (pnlInfo (Some s) p)\<close>
  by (rule part_of [where
        ps = \<open>lit ''\<newline>                    <p>Realized P&L: ''
              @ toFixed_or 2 (realized_pnl_usdt s) ''0.00''
              @ lit '' USDT</p>\<newline>                    <p>Unrealized P&L: <span class="''
              @ lit (if js_ge (Num (unrealizedPnl s p)) (Num (Fin 0)) then ''profit'' else ''loss'')
              @ lit ''">'' @ [Fixed 2 (unrealizedPnl s p)]\<close>
        and ss = "lit ''\<newline>                ''"])
     (simp add: pnlInfo_def assms lit_def)


section \<open>Dashboard cards\<close>



text \<open>
  C2. The position block with its computed figures is rendered exactly when the item has
  an active state, a quantity above 0 and a price that is not null. Then the two blocks
  hold the position value, the unrealized P&L and its percentage. Otherwise the
  position block is one of the two placeholder paragraphs and formats no number, and
  the P&L block is a placeholder that shows at most the realized P&L the server sent.
  Both blocks are part of the card.
\<close>

theorem position_block_rendered_iff:
  \<open>has_position (active_state item) (current_market_price item)
     = (\<exists>s. active_state item = Some s
            \<and> js_gt (current_position_quantity s) (Num (Fin 0))
            \<and> not_nullish (current_market_price item))
   \<and> (fixed_values (positionInfo (active_state item) (current_market_price item)) \<noteq> [])
     = has_position (active_state item) (current_market_price item)
   \<and> (has_position (active_state item) (current_market_price item) \<longrightarrow>
        (\<exists>s. active_state item = Some s
           \<and> sublist (lit ''<p>Value: '' @ [Fixed 2 (positionValue s (current_market_price item))]
                       @ lit '' USDT</p>'')
                (positionInfo (active_state item) (current_market_price item))
           \<and> sublist (lit ''<p>Unrealized P&L: <span class="''
                       @ lit (if js_ge (Num (unrealizedPnl s (current_market_price item)))
                                       (Num (Fin 0))
                              then ''profit'' else ''loss'')
                       @ lit ''">'' @ [Fixed 2 (unrealizedPnl s (current_market_price item))]
                       @ lit '' USDT ('')
                (pnlInfo (active_state item) (current_market_price item))
           \<and> sublist (lit '' USDT ('' @ [Fixed 2 (pnlPercentage s (current_market_price item))]
                       @ lit ''%)</span></p>'')
                (pnlInfo (active_state item) (current_market_price item))))
   \<and> (\<not> has_position (active_state item) (current_market_price item) \<longrightarrow>
        positionInfo (active_state item) (current_market_price item)
          = (case active_state item of
               None \<Rightarrow> lit ''<p>Position: Not active or no position</p>''
             | Some s \<Rightarrow> lit ''<p>Position: No current position</p>'')
        \<and> pnlInfo (active_state item) (current_market_price item)
          = (case active_state item of
               None \<Rightarrow> lit ''<p>P&L: -</p>''
             | Some s \<Rightarrow> lit ''<p>Realized P&L: '' @ toFixed_or 2 (realized_pnl_usdt s) ''0.00''
                         @ lit '' USDT</p><p>Unrealized P&L: -</p>''))
   \<and> sublist (positionInfo (active_state item) (current_market_price item))
              (innerHTML (render_card item))
   \<and> sublist (pnlInfo (active_state item) (current_market_price item))
              (innerHTML (render_card item))\<close>
  (is "?test \<and> ?figures \<and> ?shown \<and> ?placeholder \<and> ?in1 \<and> ?in2")
proof -
  let ?st = "active_state item" and ?p = "current_market_price item"
  have test: ?test
    by (cases ?st) (simp_all add: has_position_def)
  have figures: ?figures
    by (rule fixed_values_positionInfo)
  have shown: ?shown
  proof
    assume hp: "has_position ?st ?p"
    then obtain s where s: "?st = Some s"
      by (cases ?st) (simp_all add: has_position_def)
    with hp have hp': "has_position (Some s) ?p" by simp
    show "\<exists>s. ?st = Some s
           \<and> sublist (lit ''<p>Value: '' @ [Fixed 2 (positionValue s ?p)] @ lit '' USDT</p>'')
                (positionInfo ?st ?p)
           \<and> sublist (lit ''<p>Unrealized P&L: <span class=\"''
                       @ lit (if js_ge (Num (unrealizedPnl s ?p)) (Num (Fin 0))
                              then ''profit'' else ''loss'')
                       @ lit ''\">'' @ [Fixed 2 (unrealizedPnl s ?p)] @ lit '' USDT ('')
                (pnlInfo ?st ?p)
           \<and> sublist (lit '' USDT ('' @ [Fixed 2 (pnlPercentage s ?p)] @ lit ''%)</span></p>'')
                (pnlInfo ?st ?p)"
      using value_in_positionInfo [OF hp'] unrealized_label_in_pnlInfo [OF hp']
        percentage_in_pnlInfo [OF hp'] s
      by simp
  qed
  have placeholder: ?placeholder
    by (cases ?st) (simp_all add: positionInfo_def pnlInfo_def)
  show ?thesis
    using test figures shown placeholder positionInfo_in_card [of item] pnlInfo_in_card [of item]
    by (intro conjI)
qed

theorem position_block_rendered_iff_witness:
  \<open>\<not> has_position
        (Some \<lparr> is_running = True, current_position_quantity = Num (Fin 5),
                 average_entry_price = Num (Fin 2), realized_pnl_usdt = Num (Fin 1),
                 total_invested_usdt = Num (Fin 10) \<rparr>) Null
   \<and> positionInfo
        (Some \<lparr> is_running = True, current_position_quantity = Num (Fin 5),
                 average_entry_price = Num (Fin 2), realized_pnl_usdt = Num (Fin 1),
                 total_invested_usdt = Num (Fin 10) \<rparr>) Null
       = lit ''<p>Position: No current position</p>''
   \<and> pnlInfo
        (Some \<lparr> is_running = True, current_position_quantity = Num (Fin 5),
                 average_entry_price = Num (Fin 2), realized_pnl_usdt = Num (Fin 1),
                 total_invested_usdt = Num (Fin 10) \<rparr>) Null
       = lit ''<p>Realized P&L: '' @ [Fixed 2 (Fin 1)] @ lit '' USDT</p><p>Unrealized P&L: -</p>''\<close>
  using position_block_rendered_iff
    [of "\<lparr> strategy_config = \<lparr> config_id = ''7'', strategy_name = ''grid'',
                                 trading_pair = ''BTCUSDT'', api_id = ''0123456789'' \<rparr>,
            active_state = Some \<lparr> is_running = True, current_position_quantity = Num (Fin 5),
                                  average_entry_price = Num (Fin 2), realized_pnl_usdt = Num (Fin 1),
                                  total_invested_usdt = Num (Fin 10) \<rparr>,
            current_market_price = Null \<rparr>"]
  by (simp add: not_nullish_def)





text \<open>
  C10. With the position block shown and \<^verbatim>\<open>average_entry_price\<close> null, the card shows
  \<^verbatim>\<open>Avg. Entry: N/A\<close>, and the unrealized P&L it formats is \<^verbatim>\<open>price * quantity\<close>:
  the subtraction converts null to 0.
\<close>

theorem null_entry_price_still_shows_unrealized_pnl:
  assumes "active_state item = Some s"
    and "js_gt (current_position_quantity s) (Num (Fin 0))"
    and "not_nullish (current_market_price item)"
    and "average_entry_price s = Null"
  shows \<open>sublist (lit ''<p>Avg. Entry: N/A</p>'') (innerHTML (render_card item))
       \<and> unrealizedPnl s (current_market_price item)
           = js_mul (current_market_price item) (current_position_quantity s)
       \<and> sublist (lit ''<p>Unrealized P&L: <span class="''
                  @ lit (if js_ge (Num (js_mul (current_market_price item)
                                               (current_position_quantity s))) (Num (Fin 0))
                         then ''profit'' else ''loss'')
                  @ lit ''">''
                  @ [Fixed 2 (js_mul (current_market_price item) (current_position_quantity s))]
                  @ lit '' USDT ('')
                 (innerHTML (render_card item))\<close>
proof -
  let ?p = "current_market_price item"
  have hp: "has_position (Some s) ?p"
    using assms(2,3) by (simp add: has_position_Some)
  have card1: "sublist (positionInfo (Some s) ?p) (innerHTML (render_card item))"
    using positionInfo_in_card [of item] assms(1) by simp
  have card2: "sublist (pnlInfo (Some s) ?p) (innerHTML (render_card item))"
    using pnlInfo_in_card [of item] assms(1) by simp
  have "sublist (lit ''<p>Avg. Entry: '' @ toFixed_or 4 (average_entry_price s) ''N/A'' @ lit ''</p>'')
                (innerHTML (render_card item))"
    by (rule part_of_part [OF avg_entry_in_positionInfo [OF hp] card1])
  then have na: "sublist (lit ''<p>Avg. Entry: N/A</p>'') (innerHTML (render_card item))"
    using assms(4) by (simp add: lit_def)
  have u: "unrealizedPnl s ?p = js_mul ?p (current_position_quantity s)"
    using assms(4)
    by (simp add: unrealizedPnl_def js_sub_def js_mul_def js_sub_num_zero)
  show ?thesis
    using na u part_of_part [OF unrealized_label_in_pnlInfo [OF hp] card2] by simp
qed

theorem null_entry_price_still_shows_unrealized_pnl_witness:
  \<open>js_gt (Num (Fin 5)) (Num (Fin 0)) \<and> not_nullish (Num (Fin 3))
   \<and> sublist (lit ''<p>Avg. Entry: N/A</p>'')
        (innerHTML (render_card
           \<lparr> strategy_config = \<lparr> config_id = ''7'', strategy_name = ''grid'',
                                  trading_pair = ''BTCUSDT'', api_id = ''0123456789'' \<rparr>,
             active_state = Some \<lparr> is_running = True, current_position_quantity = Num (Fin 5),
                                   average_entry_price = Null, realized_pnl_usdt = Null,
                                   total_invested_usdt = Num (Fin 10) \<rparr>,
             current_market_price = Num (Fin 3) \<rparr>))
   \<and> sublist (lit ''<p>Unrealized P&L: <span class="profit">'' @ [Fixed 2 (Fin 15)] @ lit '' USDT ('')
        (innerHTML (render_card
           \<lparr> strategy_config = \<lparr> config_id = ''7'', strategy_name = ''grid'',
                                  trading_pair = ''BTCUSDT'', api_id = ''0123456789'' \<rparr>,
             active_state = Some \<lparr> is_running = True, current_position_quantity = Num (Fin 5),
                                   average_entry_price = Null, realized_pnl_usdt = Null,
                                   total_invested_usdt = Num (Fin 10) \<rparr>,
             current_market_price = Num (Fin 3) \<rparr>))\<close>
  using null_entry_price_still_shows_unrealized_pnl
    [of "\<lparr> strategy_config = \<lparr> config_id = ''7'', strategy_name = ''grid'',
                                  trading_pair = ''BTCUSDT'', api_id = ''0123456789'' \<rparr>,
             active_state = Some \<lparr> is_running = True, current_position_quantity = Num (Fin 5),
                                   average_entry_price = Null, realized_pnl_usdt = Null,
                                   total_invested_usdt = Num (Fin 10) \<rparr>,
             current_market_price = Num (Fin 3) \<rparr>"
        "\<lparr> is_running = True, current_position_quantity = Num (Fin 5),
                                   average_entry_price = Null, realized_pnl_usdt = Null,
                                   total_invested_usdt = Num (Fin 10) \<rparr>"]
  by (simp add: js_gt_def js_ge_def not_nullish_def js_mul_def lit_def)

section \<open>Failed refreshes\<close>

lemma failed_try_dashboard:
  "fetch_failed r \<Longrightarrow>
     fetchDashboardData_try page r
       = Inl (case r of NetworkError \<Rightarrow> FetchFailed | Response status body \<Rightarrow> HttpError status)"
  by (cases r) (simp_all add: fetch_failed_def fetchDashboardData_try_def)

lemma failed_try_apis:
  "fetch_failed r \<Longrightarrow>
     fetchApiKeys_try page r
       = Inl (case r of NetworkError \<Rightarrow> FetchFailed | Response status body \<Rightarrow> HttpError status)"
  by (cases r) (simp_all add: fetch_failed_def fetchApiKeys_try_def)

lemma fold_insertRow:
  "fold insertRow apiKeys page
     = page\<lparr>apiKeysTableBody :=
              apiKeysTableBody page @ map (\<lambda>apiKey. RowEl (row_innerHTML apiKey)) apiKeys\<rparr>"
  by (induction apiKeys arbitrary: page) (simp_all add: insertRow_def)


text \<open>
  C6, as the code has it. A refresh of the dashboard that fails (transport error or a
  status outside 200..299) logs one diagnostic and ends. When the page has the loading
  indicator, the content of the container is left in place and the text of the
  indicator becomes the error message. When the page has no loading indicator, the
  content of the container is replaced by an error paragraph.
\<close>

theorem failed_refresh_effect:
  assumes "fetch_failed r"
  shows \<open>dash_console (fetchDashboardData page r)
           = dash_console page
             @ [(''Error fetching dashboard data:'',
                 case r of NetworkError \<Rightarrow> FetchFailed | Response status body \<Rightarrow> HttpError status)]
       \<and> (\<forall>t. loadingMessage page = Some t \<longrightarrow>
              strategyCardsContainer (fetchDashboardData page r) = strategyCardsContainer page
            \<and> loadingMessage (fetchDashboardData page r) = Some ''Error loading strategies.'')
       \<and> (loadingMessage page = None \<longrightarrow>
              strategyCardsContainer (fetchDashboardData page r)
                = [Markup ''<p>Could not load strategy data. Please try again later.</p>'']
            \<and> loadingMessage (fetchDashboardData page r) = None)\<close>
  by (simp add: fetchDashboardData_def failed_try_dashboard [OF assms] Let_def split: option.split)

theorem failed_refresh_effect_witness:
  \<open>fetch_failed (Response 503 None :: dashboard_data fetch_result)
   \<and> strategyCardsContainer
        (fetchDashboardData
           \<lparr> strategyCardsContainer = [LoadingEl], loadingMessage = Some ''Loading strategies...'',
             dash_console = [] \<rparr>
           (Response 503 None)) = [LoadingEl]
   \<and> loadingMessage
        (fetchDashboardData
           \<lparr> strategyCardsContainer = [LoadingEl], loadingMessage = Some ''Loading strategies...'',
             dash_console = [] \<rparr>
           (Response 503 None)) = Some ''Error loading strategies.''
   \<and> dash_console
        (fetchDashboardData
           \<lparr> strategyCardsContainer = [LoadingEl], loadingMessage = Some ''Loading strategies...'',
             dash_console = [] \<rparr>
           (Response 503 None)) = [(''Error fetching dashboard data:'', HttpError 503)]\<close>
  using failed_refresh_effect
    [of "Response 503 None"
        "\<lparr> strategyCardsContainer = [LoadingEl], loadingMessage = Some ''Loading strategies...'',
           dash_console = [] \<rparr>"]
  by (simp add: fetch_failed_def response_ok_def)


text \<open>
  C6 as stated fails on a page without the loading indicator: the card rendered before
  is replaced by the error paragraph.
\<close>

theorem failed_refresh_keeps_cards_counterexample:
  \<open>fetch_failed (NetworkError :: dashboard_data fetch_result)
   \<and> strategyCardsContainer
        (fetchDashboardData
           \<lparr> strategyCardsContainer =
               [CardEl (render_card
                  \<lparr> strategy_config = \<lparr> config_id = ''7'', strategy_name = ''grid'',
                                         trading_pair = ''BTCUSDT'', api_id = ''0123456789'' \<rparr>,
                    active_state = None, current_market_price = Null \<rparr>)],
             loadingMessage = None, dash_console = [] \<rparr>
           NetworkError)
       \<noteq> [CardEl (render_card
                  \<lparr> strategy_config = \<lparr> config_id = ''7'', strategy_name = ''grid'',
                                         trading_pair = ''BTCUSDT'', api_id = ''0123456789'' \<rparr>,
                    active_state = None, current_market_price = Null \<rparr>)]\<close>
  by (simp add: fetch_failed_def fetchDashboardData_def fetchDashboardData_try_def Let_def)

text \<open>
  C8. When the fetch of the key list fails, the table body becomes the single
  explanatory row, and the form (its fields, its title, the attributes of the secret
  control, its visibility) and the edit id are what they were.
\<close>

theorem failed_key_fetch_leaves_form:
  assumes "fetch_failed r"
  shows \<open>apiKeysTableBody (fetchApiKeys page r)
           = [RowMarkup ''<tr><td colspan="5">Error loading API keys.</td></tr>'']
       \<and> form_fields (fetchApiKeys page r) = form_fields page
       \<and> form_display (fetchApiKeys page r) = form_display page
       \<and> currentEditApiId (fetchApiKeys page r) = currentEditApiId page
       \<and> formTitle (fetchApiKeys page r) = formTitle page
       \<and> secret_required (fetchApiKeys page r) = secret_required page
       \<and> secret_placeholder (fetchApiKeys page r) = secret_placeholder page\<close>
  by (simp add: fetchApiKeys_def failed_try_apis [OF assms])

theorem failed_key_fetch_leaves_form_witness:
  \<open>fetch_failed (Response 500 None :: api_key_record list fetch_result)
   \<and> apiKeysTableBody
        (fetchApiKeys
           \<lparr> apiKeysTableBody = [RowEl ''<td>main</td>''], formTitle = ''Edit API Key'',
             form_fields = [(''apiId'', ''3''), (''alias'', ''main''), (''api_key'', ''abcdefghij''),
                            (''secret_key'', ''''), (''mode'', ''live'')],
             secret_required = False, secret_placeholder = ''Enter new secret to change'',
             form_display = ''block'', currentEditApiId = Some ''3'', api_console = [] \<rparr>
           (Response 500 None))
       = [RowMarkup ''<tr><td colspan="5">Error loading API keys.</td></tr>'']
   \<and> form_fields
        (fetchApiKeys
           \<lparr> apiKeysTableBody = [RowEl ''<td>main</td>''], formTitle = ''Edit API Key'',
             form_fields = [(''apiId'', ''3''), (''alias'', ''main''), (''api_key'', ''abcdefghij''),
                            (''secret_key'', ''''), (''mode'', ''live'')],
             secret_required = False, secret_placeholder = ''Enter new secret to change'',
             form_display = ''block'', currentEditApiId = Some ''3'', api_console = [] \<rparr>
           (Response 500 None))
       = [(''apiId'', ''3''), (''alias'', ''main''), (''api_key'', ''abcdefghij''),
          (''secret_key'', ''''), (''mode'', ''live'')]
   \<and> form_display
        (fetchApiKeys
           \<lparr> apiKeysTableBody = [RowEl ''<td>main</td>''], formTitle = ''Edit API Key'',
             form_fields = [(''apiId'', ''3''), (''alias'', ''main''), (''api_key'', ''abcdefghij''),
                            (''secret_key'', ''''), (''mode'', ''live'')],
             secret_required = False, secret_placeholder = ''Enter new secret to change'',
             form_display = ''block'', currentEditApiId = Some ''3'', api_console = [] \<rparr>
           (Response 500 None)) = ''block''
   \<and> currentEditApiId
        (fetchApiKeys
           \<lparr> apiKeysTableBody = [RowEl ''<td>main</td>''], formTitle = ''Edit API Key'',
             form_fields = [(''apiId'', ''3''), (''alias'', ''main''), (''api_key'', ''abcdefghij''),
                            (''secret_key'', ''''), (''mode'', ''live'')],
             secret_required = False, secret_placeholder = ''Enter new secret to change'',
             form_display = ''block'', currentEditApiId = Some ''3'', api_console = [] \<rparr>
           (Response 500 None)) = Some ''3''\<close>
  using failed_key_fetch_leaves_form
    [of "Response 500 None"
        \<open>\<lparr> apiKeysTableBody = [RowEl ''<td>main</td>''], formTitle = ''Edit API Key'',
             form_fields = [(''apiId'', ''3''), (''alias'', ''main''), (''api_key'', ''abcdefghij''),
                            (''secret_key'', ''''), (''mode'', ''live'')],
             secret_required = False, secret_placeholder = ''Enter new secret to change'',
             form_display = ''block'', currentEditApiId = Some ''3'', api_console = [] \<rparr>\<close>]
  by (simp add: fetch_failed_def response_ok_def)

section \<open>The API-key table\<close>

lemma substring_first: "substring s 0 (int n) = take n s"
  by (simp add: substring_def clamp_index_def Let_def min_def)

lemma substring_from_last: "substring_from s (int (length s) - int n) = drop (length s - n) s"
  by (auto simp add: substring_from_def substring_def clamp_index_def Let_def min_def max_def nat_diff_distrib)

lemma keyDisplay_take_drop:
  "keyDisplay apiKey
     = take 4 (api_key apiKey) @ ''...'' @ drop (length (api_key apiKey) - 4) (api_key apiKey)"
  using substring_first [of "api_key apiKey" 4] substring_from_last [of "api_key apiKey" 4]
  by (simp add: keyDisplay_def)


text \<open>
  C7. The key column of a row is the first 4 and the last 4 characters of
  \<^verbatim>\<open>api_key\<close> around \<^verbatim>\<open>...\<close>: whatever lies between the first 4 and the last 4
  characters is not shown. A row does not depend on \<^verbatim>\<open>secret_key\<close>, and neither
  does the table.
\<close>

theorem key_row_shows_masked_key_only:
  \<open>keyDisplay apiKey
     = take 4 (api_key apiKey) @ ''...'' @ drop (length (api_key apiKey) - 4) (api_key apiKey)
   \<and> (\<forall>first middle last.
         api_key apiKey = first @ middle @ last \<and> length first = 4 \<and> length last = 4
         \<longrightarrow> keyDisplay apiKey = first @ ''...'' @ last)
   \<and> sublist (''<td>'' @ keyDisplay apiKey @ ''</td>'') (row_innerHTML apiKey)
   \<and> row_innerHTML (apiKey\<lparr>secret_key := secret\<rparr>) = row_innerHTML apiKey
   \<and> (response_ok status \<longrightarrow>
        apiKeysTableBody (fetchApiKeys page (Response status (Some apiKeys)))
          = map (\<lambda>k. RowEl (row_innerHTML k)) apiKeys)
   \<and> apiKeysTableBody
        (fetchApiKeys page
           (Response status (Some (map (\<lambda>k. k\<lparr>secret_key := secrets k\<rparr>) apiKeys))))
       = apiKeysTableBody (fetchApiKeys page (Response status (Some apiKeys)))\<close>
  (is "?mask \<and> ?middle \<and> ?cell \<and> ?row \<and> ?table \<and> ?secrets")
proof -
  have mask: ?mask by (rule keyDisplay_take_drop)
  have middle: ?middle by (auto simp: keyDisplay_take_drop)
  have cell: ?cell
    unfolding row_innerHTML_def
    by (rule part_of [where
          ps = "''\<newline>                    <td>'' @ alias_name apiKey @ ''</td>\<newline>                    ''"])
       simp
  have row: ?row by (simp add: row_innerHTML_def keyDisplay_def)
  have table: ?table
    by (simp add: fetchApiKeys_def fetchApiKeys_try_def fold_insertRow)
  have secrets: ?secrets
    by (simp add: fetchApiKeys_def fetchApiKeys_try_def fold_insertRow row_innerHTML_def
          keyDisplay_def comp_def)
  from mask middle cell row table secrets show ?thesis by (intro conjI)
qed

theorem key_row_shows_masked_key_only_witness:
  \<open>keyDisplay \<lparr> apiKey_id = ''3'', alias_name = ''main'', api_key = ''abcdefghijkl'',
                 secret_key = Some ''s3cr3t'', mode = ''live'', connection_status = ''connected'' \<rparr>
     = ''abcd...ijkl''
   \<and> response_ok 200
   \<and> apiKeysTableBody
        (fetchApiKeys
           \<lparr> apiKeysTableBody = [], formTitle = '''', form_fields = [], secret_required = True,
             secret_placeholder = '''', form_display = ''none'', currentEditApiId = None,
             api_console = [] \<rparr>
           (Response 200 (Some
              [\<lparr> apiKey_id = ''3'', alias_name = ''main'', api_key = ''abcdefghijkl'',
                  secret_key = Some ''s3cr3t'', mode = ''live'',
                  connection_status = ''connected'' \<rparr>])))
       = [RowEl (row_innerHTML
            \<lparr> apiKey_id = ''3'', alias_name = ''main'', api_key = ''abcdefghijkl'',
              secret_key = Some ''s3cr3t'', mode = ''live'', connection_status = ''connected'' \<rparr>)]\<close>
proof -
  let ?k = "\<lparr> apiKey_id = ''3'', alias_name = ''main'', api_key = ''abcdefghijkl'',
              secret_key = Some ''s3cr3t'', mode = ''live'', connection_status = ''connected'' \<rparr>"
  let ?page = "\<lparr> apiKeysTableBody = [], formTitle = '''', form_fields = [], secret_required = True,
             secret_placeholder = '''', form_display = ''none'', currentEditApiId = None,
             api_console = [] \<rparr>"
  note t = key_row_shows_masked_key_only [of ?k None 200 ?page "[?k]" "\<lambda>k. None"]
  have ok: "response_ok 200" by (simp add: response_ok_def)
  from t have "\<forall>first middle last.
         api_key ?k = first @ middle @ last \<and> length first = 4 \<and> length last = 4
         \<longrightarrow> keyDisplay ?k = first @ ''...'' @ last"
    by blast
  then have "api_key ?k = ''abcd'' @ ''efgh'' @ ''ijkl'' \<and> length ''abcd'' = 4 \<and> length ''ijkl'' = 4
         \<longrightarrow> keyDisplay ?k = ''abcd'' @ ''...'' @ ''ijkl''"
    by blast
  then have d: "keyDisplay ?k = ''abcd...ijkl''" by simp
  from t ok have "apiKeysTableBody (fetchApiKeys ?page (Response 200 (Some [?k])))
          = map (\<lambda>k. RowEl (row_innerHTML k)) [?k]"
    by blast
  with d ok show ?thesis by simp
qed


section \<open>Form submissions\<close>

lemma fromEntries_fold:
  "fold (\<lambda>(k, v) obj. obj(k \<mapsto> v)) entries m = m ++ map_of (rev entries)"
  by (induction entries arbitrary: m) (auto simp: map_add_def fun_eq_iff split: option.splits)

lemma fromEntries_last: "fromEntries entries = map_of (rev entries)"
  by (simp add: fromEntries_def fromEntries_fold)

lemma checkbox_not_numeric: "checkbox_key key \<Longrightarrow> \<not> numeric_key key"
  unfolding checkbox_key_def
  by (elim disjE; hypsubst; code_simp)

lemma order_timeout_seconds_numeric: "numeric_key ''order_timeout_seconds''"
  by code_simp

lemma collect_field_at:
  "collect_field (k, v) data key
     = (if key = k \<and> \<not> checkbox_key k
        then Some (if numeric_key k then DNum (parseFloat v) else DStr v)
        else data key)"
  by (simp add: collect_field_def)

lemma fold_collect_field:
  "fold collect_field entries data key
     = (if checkbox_key key then data key
        else case map_of (rev entries) key of
               None \<Rightarrow> data key
             | Some value \<Rightarrow>
                 Some (if numeric_key key then DNum (parseFloat value) else DStr value))"
proof (induction entries arbitrary: data)
  case Nil
  then show ?case by simp
next
  case (Cons e entries)
  obtain k v where e: "e = (k, v)" by (cases e)
  have "fold collect_field (e # entries) data key
          = fold collect_field entries (collect_field (k, v) data) key"
    by (simp add: e)
  also have "\<dots> = (if checkbox_key key then collect_field (k, v) data key
        else case map_of (rev entries) key of
               None \<Rightarrow> collect_field (k, v) data key
             | Some value \<Rightarrow>
                 Some (if numeric_key key then DNum (parseFloat value) else DStr value))"
    by (rule Cons.IH)
  also have "\<dots> = (if checkbox_key key then data key
        else case map_of (rev (e # entries)) key of
               None \<Rightarrow> data key
             | Some value \<Rightarrow>
                 Some (if numeric_key key then DNum (parseFloat value) else DStr value))"
    by (simp add: collect_field_at e map_add_def split: option.splits)
  finally show ?case .
qed

lemma strategy_data_at:
  "strategy_data form key
     = (if key = ''order_timeout_seconds''
        then (if enable_order_timeout form
              then Some (DNum (parseFloat (order_timeout_seconds form))) else None)
        else if key = ''enable_order_timeout'' then Some (DBool (enable_order_timeout form))
        else if key = ''cover_orders_participate_in_profit_taking''
          then Some (DBool (cover_orders_participate_in_profit_taking form))
        else if key = ''cyclic_execution'' then Some (DBool (cyclic_execution form))
        else fold collect_field (form_entries form) Map.empty key)"
  by (simp add: strategy_data_def Let_def falsy_def)

lemma request_body_strategy:
  "addStrategyForm_submit form = Request req \<Longrightarrow> request_body req = stringify (strategy_data form)"
  by (auto simp: addStrategyForm_submit_def Let_def split: if_splits)


lemma api_id_not_numeric: "\<not> numeric_key ''api_id''"
  by code_simp

lemma api_id_sent:
  "strategy_data form ''api_id'' = map_option DStr (map_of (rev (form_entries form)) ''api_id'')"
  by (simp add: strategy_data_at fold_collect_field checkbox_key_def api_id_not_numeric
        split: option.split)


text \<open>
  C4. In edit mode (the edit id is a non-empty string) the form is sent with
  \<^verbatim>\<open>PUT\<close>. When the secret field is missing or empty, the body has no key
  \<^verbatim>\<open>secret_key\<close>; when it holds a non-empty value, the body has \<^verbatim>\<open>secret_key\<close>
  with that value. The value of a field is that of the last entry of its name.
\<close>

theorem edit_submit_secret_key:
  assumes "currentEditApiId page = Some editId" and "editId \<noteq> []"
  shows \<open>(map_of (rev (form_fields page)) ''secret_key'' = None
          \<or> map_of (rev (form_fields page)) ''secret_key'' = Some []
          \<longrightarrow> sent_value (apiKeyForm_submit page) ''secret_key'' = Some None)
       \<and> (\<forall>v. map_of (rev (form_fields page)) ''secret_key'' = Some v \<and> v \<noteq> []
             \<longrightarrow> sent_value (apiKeyForm_submit page) ''secret_key'' = Some (Some (JString v)))
       \<and> (\<exists>req. apiKeyForm_submit page = Request req \<and> request_method req = ''PUT''
                \<and> request_url req = ''/apis/'' @ editId)\<close>
  using assms
  by (auto simp: apiKeyForm_submit_def fromEntries_last falsy_string_def sent_value_def
        stringify_strings_def Let_def)

theorem edit_submit_secret_key_witness:
  \<open>sent_value
      (apiKeyForm_submit
         \<lparr> apiKeysTableBody = [], formTitle = ''Edit API Key'',
           form_fields = [(''apiId'', ''3''), (''alias'', ''main''), (''api_key'', ''abcdefghij''),
                          (''secret_key'', ''''), (''mode'', ''live'')],
           secret_required = False, secret_placeholder = ''Enter new secret to change'',
           form_display = ''block'', currentEditApiId = Some ''3'', api_console = [] \<rparr>)
      ''secret_key'' = Some None
   \<and> sent_value
      (apiKeyForm_submit
         \<lparr> apiKeysTableBody = [], formTitle = ''Edit API Key'',
           form_fields = [(''apiId'', ''3''), (''alias'', ''main''), (''api_key'', ''abcdefghij''),
                          (''secret_key'', ''n3w''), (''mode'', ''live'')],
           secret_required = False, secret_placeholder = ''Enter new secret to change'',
           form_display = ''block'', currentEditApiId = Some ''3'', api_console = [] \<rparr>)
      ''secret_key'' = Some (Some (JString ''n3w''))\<close>
  using edit_submit_secret_key
    [of \<open>\<lparr> apiKeysTableBody = [], formTitle = ''Edit API Key'',
           form_fields = [(''apiId'', ''3''), (''alias'', ''main''), (''api_key'', ''abcdefghij''),
                          (''secret_key'', ''''), (''mode'', ''live'')],
           secret_required = False, secret_placeholder = ''Enter new secret to change'',
           form_display = ''block'', currentEditApiId = Some ''3'', api_console = [] \<rparr>\<close> "''3''"]
    edit_submit_secret_key
    [of \<open>\<lparr> apiKeysTableBody = [], formTitle = ''Edit API Key'',
           form_fields = [(''apiId'', ''3''), (''alias'', ''main''), (''api_key'', ''abcdefghij''),
                          (''secret_key'', ''n3w''), (''mode'', ''live'')],
           secret_required = False, secret_placeholder = ''Enter new secret to change'',
           form_display = ''block'', currentEditApiId = Some ''3'', api_console = [] \<rparr>\<close> "''3''"]
  by simp

text \<open>
  C5. A request of the add-strategy form has no key \<^verbatim>\<open>order_timeout_seconds\<close> when
  \<^verbatim>\<open>enable_order_timeout\<close> is unchecked, and has the key when it is checked.
\<close>

theorem order_timeout_seconds_sent_iff_enabled:
  assumes "addStrategyForm_submit form = Request req"
  shows "(\<not> enable_order_timeout form \<longrightarrow> request_body req ''order_timeout_seconds'' = None)
       \<and> (enable_order_timeout form \<longrightarrow> ''order_timeout_seconds'' \<in> dom (request_body req))"
  by (auto simp: request_body_strategy [OF assms] stringify_def strategy_data_at)

theorem order_timeout_seconds_sent_iff_enabled_witness:
  "sent_value
     (addStrategyForm_submit
        \<lparr> form_entries = [(''strategy_name'', ''grid''), (''api_id'', ''3''),
                           (''order_timeout_seconds'', ''30'')],
          cyclic_execution = True, cover_orders_participate_in_profit_taking = False,
          enable_order_timeout = False, order_timeout_seconds = ''30'' \<rparr>)
     ''order_timeout_seconds'' = Some None"
proof -
  let ?form = "\<lparr> form_entries = [(''strategy_name'', ''grid''), (''api_id'', ''3''),
                           (''order_timeout_seconds'', ''30'')],
          cyclic_execution = True, cover_orders_participate_in_profit_taking = False,
          enable_order_timeout = False, order_timeout_seconds = ''30'' \<rparr>"
  have "\<not> falsy (strategy_data ?form ''api_id'')"
    by (simp add: api_id_sent falsy_def)
  then obtain req where req: "addStrategyForm_submit ?form = Request req"
    by (simp add: addStrategyForm_submit_def Let_def)
  from order_timeout_seconds_sent_iff_enabled [OF req]
  have "request_body req ''order_timeout_seconds'' = None" by simp
  with req show ?thesis by (simp add: sent_value_def)
qed


text \<open>
  C9 as stated fails for the field \<^verbatim>\<open>order_timeout_seconds\<close> itself: its name has the
  marker \<^verbatim>\<open>seconds\<close>, and left blank with \<^verbatim>\<open>enable_order_timeout\<close> unchecked it is
  removed from the body, not sent as null.
\<close>

theorem blank_numeric_field_sent_as_null_counterexample:
  "numeric_key ''order_timeout_seconds''
   \<and> map_of (rev [(''api_id'', ''3''), (''order_timeout_seconds'', '''')]) ''order_timeout_seconds''
       = Some ''''
   \<and> parseFloat '''' = NaN
   \<and> sent_value
       (addStrategyForm_submit
          \<lparr> form_entries = [(''api_id'', ''3''), (''order_timeout_seconds'', '''')],
            cyclic_execution = False, cover_orders_participate_in_profit_taking = False,
            enable_order_timeout = False, order_timeout_seconds = '''' \<rparr>)
       ''order_timeout_seconds'' = Some None"
proof -
  let ?form = "\<lparr> form_entries = [(''api_id'', ''3''), (''order_timeout_seconds'', '''')],
            cyclic_execution = False, cover_orders_participate_in_profit_taking = False,
            enable_order_timeout = False, order_timeout_seconds = '''' \<rparr>"
  have "\<not> falsy (strategy_data ?form ''api_id'')"
    by (simp add: api_id_sent falsy_def)
  then have "sent_value (addStrategyForm_submit ?form) ''order_timeout_seconds'' = Some None"
    by (simp add: addStrategyForm_submit_def Let_def sent_value_def stringify_def strategy_data_at)
  moreover have "parseFloat '''' = NaN" by (simp add: parseFloat_def)
  ultimately show ?thesis
    using order_timeout_seconds_numeric by simp
qed


text \<open>
  C9, as the code has it. In a request of the add-strategy form, every field other than
  \<^verbatim>\<open>order_timeout_seconds\<close> whose name has a numeric marker and whose value
  \<^verbatim>\<open>parseFloat\<close> reads as \<^verbatim>\<open>NaN\<close> is present with value null, and a blank value
  is read as \<^verbatim>\<open>NaN\<close>. The key \<^verbatim>\<open>order_timeout_seconds\<close> is null when
  \<^verbatim>\<open>enable_order_timeout\<close> is checked and the control of that id reads as
  \<^verbatim>\<open>NaN\<close>, and is absent when the checkbox is unchecked.
\<close>

theorem unreadable_numeric_field_sent_as_null:
  assumes "addStrategyForm_submit form = Request req"
  shows "(\<forall>key value. numeric_key key \<and> key \<noteq> ''order_timeout_seconds''
             \<and> map_of (rev (form_entries form)) key = Some value \<and> parseFloat value = NaN
           \<longrightarrow> request_body req key = Some JNull)
       \<and> (enable_order_timeout form \<and> parseFloat (order_timeout_seconds form) = NaN
           \<longrightarrow> request_body req ''order_timeout_seconds'' = Some JNull)
       \<and> (\<not> enable_order_timeout form \<longrightarrow> request_body req ''order_timeout_seconds'' = None)
       \<and> parseFloat '''' = NaN"
proof -
  have body: "request_body req = stringify (strategy_data form)"
    by (rule request_body_strategy [OF assms])
  have fields: "\<forall>key value. numeric_key key \<and> key \<noteq> ''order_timeout_seconds''
             \<and> map_of (rev (form_entries form)) key = Some value \<and> parseFloat value = NaN
           \<longrightarrow> request_body req key = Some JNull"
  proof (intro allI impI)
    fix key v
    assume h: "numeric_key key \<and> key \<noteq> ''order_timeout_seconds''
             \<and> map_of (rev (form_entries form)) key = Some v \<and> parseFloat v = NaN"
    then have nc: "\<not> checkbox_key key" using checkbox_not_numeric by blast
    then have "strategy_data form key = fold collect_field (form_entries form) Map.empty key"
      using h by (simp add: strategy_data_at checkbox_key_def)
    also have "\<dots> = Some (DNum NaN)"
      using h nc by (simp add: fold_collect_field)
    finally show "request_body req key = Some JNull"
      by (simp add: body stringify_def)
  qed
  have timeout: "enable_order_timeout form \<and> parseFloat (order_timeout_seconds form) = NaN
           \<longrightarrow> request_body req ''order_timeout_seconds'' = Some JNull"
    by (simp add: body stringify_def strategy_data_at)
  have omitted: "\<not> enable_order_timeout form \<longrightarrow> request_body req ''order_timeout_seconds'' = None"
    by (simp add: body stringify_def strategy_data_at)
  have blank: "parseFloat '''' = NaN" by (simp add: parseFloat_def)
  from fields timeout omitted blank show ?thesis by (intro conjI)
qed

theorem unreadable_numeric_field_sent_as_null_witness:
  "sent_value
     (addStrategyForm_submit
        \<lparr> form_entries = [(''api_id'', ''3''), (''take_profit_percentage'', ''''),
                           (''order_timeout_seconds'', '''')],
          cyclic_execution = False, cover_orders_participate_in_profit_taking = False,
          enable_order_timeout = True, order_timeout_seconds = '''' \<rparr>)
     ''take_profit_percentage'' = Some (Some JNull)
   \<and> sent_value
     (addStrategyForm_submit
        \<lparr> form_entries = [(''api_id'', ''3''), (''take_profit_percentage'', ''''),
                           (''order_timeout_seconds'', '''')],
          cyclic_execution = False, cover_orders_participate_in_profit_taking = False,
          enable_order_timeout = True, order_timeout_seconds = '''' \<rparr>)
     ''order_timeout_seconds'' = Some (Some JNull)"
proof -
  let ?form = "\<lparr> form_entries = [(''api_id'', ''3''), (''take_profit_percentage'', ''''),
                           (''order_timeout_seconds'', '''')],
          cyclic_execution = False, cover_orders_participate_in_profit_taking = False,
          enable_order_timeout = True, order_timeout_seconds = '''' \<rparr>"
  have "\<not> falsy (strategy_data ?form ''api_id'')"
    by (simp add: api_id_sent falsy_def)
  then obtain req where req: "addStrategyForm_submit ?form = Request req"
    by (simp add: addStrategyForm_submit_def Let_def)
  note t = unreadable_numeric_field_sent_as_null [OF req]
  have n: "numeric_key ''take_profit_percentage''" by code_simp
  have nan: "parseFloat '''' = NaN" using t by blast
  from t have "numeric_key ''take_profit_percentage''
       \<and> ''take_profit_percentage'' \<noteq> ''order_timeout_seconds''
       \<and> map_of (rev (form_entries ?form)) ''take_profit_percentage'' = Some ''''
       \<and> parseFloat '''' = NaN
       \<longrightarrow> request_body req ''take_profit_percentage'' = Some JNull"
    by blast
  then have a: "request_body req ''take_profit_percentage'' = Some JNull"
    using n nan by simp
  from t nan have b: "request_body req ''order_timeout_seconds'' = Some JNull"
    by simp
  from a b req show ?thesis by (simp add: sent_value_def)
qed

end
